theory Spec2Isabelle
  imports Complex_Main "HOL-Library.Product_Lexorder"
begin

section \<open>Numbers and strings of the source language\<close>

text \<open>
  The sources are TypeScript. A \<open>number\<close> that the program takes from its caller
  without a test is a value of the type \<open>number\<close> below: a finite number, modelled as
  an exact rational, or one of \<open>NaN\<close>, \<open>Infinity\<close> and \<open>-Infinity\<close>. Arithmetic on
  finite numbers is exact: the rounding error of IEEE doubles is not part of the model.
  The operations on \<open>number\<close> follow ECMAScript: \<open>NaN\<close> is contagious, and every
  comparison with \<open>NaN\<close> is false.

  A string is a list of code units; the model covers code units below 256 (\<open>char\<close>).
  \<open>isSpace\<close> is the class \<open>\s\<close> of regular expressions, which is also what
  \<open>String.prototype.trim\<close> strips, restricted to that range.
\<close>

datatype number = Finite rat | NaN | Infinity | NegInfinity

text \<open>\<open>Math.max(a, b)\<close>.\<close>

fun numMax :: "number \<Rightarrow> number \<Rightarrow> number" where
  "numMax NaN b = NaN"
| "numMax a NaN = NaN"
| "numMax Infinity b = Infinity"
| "numMax a Infinity = Infinity"
| "numMax NegInfinity b = b"
| "numMax a NegInfinity = a"
| "numMax (Finite x) (Finite y) = Finite (max x y)"

text \<open>\<open>a + c\<close> and \<open>a * c\<close> for a finite constant \<open>c\<close>.\<close>

fun numAdd :: "number \<Rightarrow> rat \<Rightarrow> number" where
  "numAdd (Finite x) c = Finite (x + c)"
| "numAdd a c = a"

fun numTimes :: "number \<Rightarrow> rat \<Rightarrow> number" where
  "numTimes (Finite x) c = Finite (x * c)"
| "numTimes NaN c = NaN"
| "numTimes Infinity c = (if 0 < c then Infinity else if c < 0 then NegInfinity else NaN)"
| "numTimes NegInfinity c = (if 0 < c then NegInfinity else if c < 0 then Infinity else NaN)"

text \<open>\<open>Math.round(a)\<close>: the nearest integer, the larger one of two equally near.\<close>

fun numRound :: "number \<Rightarrow> number" where
  "numRound (Finite x) = Finite (of_int (round x))"
| "numRound a = a"

text \<open>\<open>a < b\<close> and \<open>a <= b\<close>.\<close>

fun numLt :: "number \<Rightarrow> number \<Rightarrow> bool" where
  "numLt NaN b = False"
| "numLt a NaN = False"
| "numLt a NegInfinity = False"
| "numLt NegInfinity b = True"
| "numLt Infinity b = False"
| "numLt a Infinity = True"
| "numLt (Finite x) (Finite y) = (x < y)"

fun numLe :: "number \<Rightarrow> number \<Rightarrow> bool" where
  "numLe NaN b = False"
| "numLe a NaN = False"
| "numLe NegInfinity b = True"
| "numLe a Infinity = True"
| "numLe a NegInfinity = False"
| "numLe Infinity b = False"
| "numLe (Finite x) (Finite y) = (x \<le> y)"

definition isSpace :: "char \<Rightarrow> bool" where
  "isSpace c = (c = CHR 0x09 \<or> c = CHR 0x0A \<or> c = CHR 0x0B \<or> c = CHR 0x0C
     \<or> c = CHR 0x0D \<or> c = CHR 0x20 \<or> c = CHR 0xA0)"

definition trimStart :: "string \<Rightarrow> string" where
  "trimStart s = dropWhile isSpace s"

definition trimEnd :: "string \<Rightarrow> string" where
  "trimEnd s = rev (dropWhile isSpace (rev s))"

definition trim :: "string \<Rightarrow> string" where
  "trim s = trimEnd (trimStart s)"

text \<open>\<open>Array.prototype.join\<close> on a list of strings.\<close>

fun join :: "string \<Rightarrow> string list \<Rightarrow> string" where
  "join sep [] = []"
| "join sep [x] = x"
| "join sep (x # y # ys) = x @ sep @ join sep (y # ys)"

text \<open>\<open>String.prototype.toLowerCase\<close> on one code unit below 256.\<close>

definition toLowerChar :: "char \<Rightarrow> char" where
  "toLowerChar c =
     (let n = of_char c :: int in
      if (65 \<le> n \<and> n \<le> 90) \<or> (192 \<le> n \<and> n \<le> 222 \<and> n \<noteq> 215)
      then char_of (n + 32) else c)"

definition toLowerCase :: "string \<Rightarrow> string" where
  "toLowerCase s = map toLowerChar s"

text \<open>
  Canonicalisation of a code unit under the \<open>i\<close> flag of a regular expression whose
  pattern is ASCII: only the ASCII letters are folded.
\<close>

definition foldAscii :: "char \<Rightarrow> char" where
  "foldAscii c =
     (let n = of_char c :: int in if 65 \<le> n \<and> n \<le> 90 then char_of (n + 32) else c)"

definition startsWithCI :: "string \<Rightarrow> string \<Rightarrow> bool" where
  "startsWithCI pat s = (map foldAscii (take (length pat) s) = map foldAscii pat)"

text \<open>\<open>value.replace(/pat/gi, rep)\<close> for a literal, non-empty pattern \<open>pat\<close>.\<close>

fun replaceAllCI :: "string \<Rightarrow> string \<Rightarrow> string \<Rightarrow> string" where
  "replaceAllCI pat rep [] = []"
| "replaceAllCI pat rep (c # cs) =
     (if pat \<noteq> [] \<and> startsWithCI pat (c # cs)
      then rep @ replaceAllCI pat rep (drop (length pat - 1) cs)
      else c # replaceAllCI pat rep cs)"

section \<open>webvtt.ts: text helpers\<close>

definition normalizeLineEndings_step1 :: "string \<Rightarrow> string" where
  "normalizeLineEndings_step1 s = replaceAllCI [CHR 0x0D, CHR 0x0A] [CHR 0x0A] s"

definition normalizeLineEndings :: "string \<Rightarrow> string" where
  "normalizeLineEndings s =
     map (\<lambda>c. if c = CHR 0x0D then CHR 0x0A else c) (normalizeLineEndings_step1 s)"

definition decodeBasicHtmlEntities :: "string \<Rightarrow> string" where
  "decodeBasicHtmlEntities s =
     replaceAllCI ''&nbsp;'' '' ''
       (replaceAllCI ''&gt;'' ''>''
         (replaceAllCI ''&lt;'' ''<''
           (replaceAllCI ''&amp;'' ''&'' s)))"

text \<open>\<open>.replace(/<[^>]+>/g, " ")\<close>: a \<open><\<close>, at least one code unit other than \<open>>\<close>, a \<open>>\<close>.\<close>

function stripTags :: "string \<Rightarrow> string" where
  "stripTags [] = []"
| "stripTags (c # cs) =
     (if c = CHR ''<'' \<and> takeWhile (\<lambda>d. d \<noteq> CHR ''>'') cs \<noteq> []
         \<and> dropWhile (\<lambda>d. d \<noteq> CHR ''>'') cs \<noteq> []
      then CHR '' '' # stripTags (tl (dropWhile (\<lambda>d. d \<noteq> CHR ''>'') cs))
      else c # stripTags cs)"
  by pat_completeness auto
termination
  by (relation "measure length")
    (auto simp: less_Suc_eq_le intro: order_trans [OF diff_le_self length_dropWhile_le])

text \<open>\<open>.replace(/\s+/g, " ")\<close>.\<close>

function collapseWhitespace :: "string \<Rightarrow> string" where
  "collapseWhitespace [] = []"
| "collapseWhitespace (c # cs) =
     (if isSpace c then CHR '' '' # collapseWhitespace (dropWhile isSpace cs)
      else c # collapseWhitespace cs)"
  by pat_completeness auto
termination
  by (relation "measure length") (auto simp: le_imp_less_Suc length_dropWhile_le)

text \<open>
  \<open>.replace(/\s+([,.;!?])/g, "$1")\<close> and \<open>.replace(/\s+\)/g, ")")\<close>: a run of white
  space is dropped when the code unit after the whole run is in \<open>stops\<close>.
\<close>

function dropSpaceBefore :: "char list \<Rightarrow> string \<Rightarrow> string" where
  "dropSpaceBefore stops [] = []"
| "dropSpaceBefore stops (c # cs) =
     (if isSpace c \<and> dropWhile isSpace cs \<noteq> [] \<and> hd (dropWhile isSpace cs) \<in> set stops
      then hd (dropWhile isSpace cs) # dropSpaceBefore stops (tl (dropWhile isSpace cs))
      else c # dropSpaceBefore stops cs)"
  by pat_completeness auto
termination
  by (relation "measure (\<lambda>(stops, s). length s)")
    (auto simp: less_Suc_eq_le intro: order_trans [OF diff_le_self length_dropWhile_le])

text \<open>\<open>.replace(/\(\s+/g, "(")\<close>.\<close>

function dropSpaceAfterParen :: "string \<Rightarrow> string" where
  "dropSpaceAfterParen [] = []"
| "dropSpaceAfterParen (c # cs) =
     (if c = CHR ''('' then c # dropSpaceAfterParen (dropWhile isSpace cs)
      else c # dropSpaceAfterParen cs)"
  by pat_completeness auto
termination
  by (relation "measure length") (auto simp: le_imp_less_Suc length_dropWhile_le)

definition normalizeCueText :: "string \<Rightarrow> string" where
  "normalizeCueText s =
     trim (dropSpaceBefore '')''
       (dropSpaceAfterParen
         (dropSpaceBefore '',.;!?''
           (collapseWhitespace
             (stripTags (decodeBasicHtmlEntities s))))))"

text \<open>
  \<open>/[.!?]["')\]]*$/.test(value.trim())\<close> and \<open>/[,;:]["')\]]*$/.test(value.trim())\<close>:
  after the closing quotes and brackets at the end are set aside, the last code unit is
  one of \<open>marks\<close>.
\<close>

definition isCloser :: "char \<Rightarrow> bool" where
  "isCloser c = (c = CHR 0x22 \<or> c = CHR 0x27 \<or> c = CHR '')'' \<or> c = CHR '']'')"

definition endsWithMark :: "char list \<Rightarrow> string \<Rightarrow> bool" where
  "endsWithMark marks s =
     (case dropWhile isCloser (rev s) of [] \<Rightarrow> False | c # _ \<Rightarrow> c \<in> set marks)"

definition endsWithSentencePunctuation :: "string \<Rightarrow> bool" where
  "endsWithSentencePunctuation v = endsWithMark ''.!?'' (trim v)"

definition endsWithSoftPunctuation :: "string \<Rightarrow> bool" where
  "endsWithSoftPunctuation v = endsWithMark '',;:'' (trim v)"

definition isUpperAZ :: "char \<Rightarrow> bool" where
  "isUpperAZ c = (let n = of_char c :: int in 65 \<le> n \<and> n \<le> 90)"

definition startsWithUppercase :: "string \<Rightarrow> bool" where
  "startsWithUppercase v = (case trim v of [] \<Rightarrow> False | c # _ \<Rightarrow> isUpperAZ c)"

text \<open>The class \<open>[a-z0-9'-]\<close> of \<open>splitCueWords\<close>.\<close>

definition isWordChar :: "char \<Rightarrow> bool" where
  "isWordChar c =
     (let n = of_char c :: int in
      (97 \<le> n \<and> n \<le> 122) \<or> (48 \<le> n \<and> n \<le> 57) \<or> c = CHR 0x27 \<or> c = CHR ''-'')"

text \<open>
  The tokens of \<open>.replace(/[^a-z0-9'-]+/g, " ").trim().split(/\s+/)\<close> without the empty
  ones: the maximal runs of word characters.
\<close>

function wordRuns :: "string \<Rightarrow> string list" where
  "wordRuns [] = []"
| "wordRuns (c # cs) =
     (if isWordChar c
      then (c # takeWhile isWordChar cs) # wordRuns (dropWhile isWordChar cs)
      else wordRuns cs)"
  by pat_completeness auto
termination
  by (relation "measure length") (auto simp: less_Suc_eq_le length_dropWhile_le)

definition splitCueWords :: "string \<Rightarrow> string list" where
  "splitCueWords v = wordRuns (toLowerCase v)"

definition CONNECTOR_WORDS :: "string list" where
  "CONNECTOR_WORDS =
     [''a'', ''an'', ''and'', ''as'', ''at'', ''be'', ''been'', ''being'', ''but'', ''by'',
      ''for'', ''from'', ''if'', ''in'', ''into'', ''is'', ''it'', ''its'', ''of'', ''on'',
      ''or'', ''our'', ''so'', ''that'', ''the'', ''their'', ''then'', ''these'', ''this'',
      ''those'', ''to'', ''was'', ''were'', ''which'', ''with'']"

definition isConnector :: "string \<Rightarrow> bool" where
  "isConnector w = (w \<in> set CONNECTOR_WORDS)"

definition startsWithConnector :: "string \<Rightarrow> bool" where
  "startsWithConnector v = (case splitCueWords v of [] \<Rightarrow> False | w # _ \<Rightarrow> isConnector w)"

definition endsWithConnector :: "string \<Rightarrow> bool" where
  "endsWithConnector v =
     (let ws = splitCueWords v in if ws = [] then False else isConnector (last ws))"

definition isDanglingCueText :: "string \<Rightarrow> bool" where
  "isDanglingCueText v =
     (let ws = splitCueWords v in
      if length ws = 0 then True
      else if length ws = 1 then isConnector (hd ws)
      else if length ws \<le> 3 \<and> list_all isConnector ws then True
      else endsWithConnector v)"

section \<open>webvtt.ts: words, cues and options\<close>

record 'n TimedWordLike =
  "text" :: string
  start_time :: 'n
  end_time :: 'n

record 'n WebVttCue = "'n TimedWordLike" +
  "identifier" :: "string option"

record CaptionSegmentationOptions =
  maxCueChars :: "number option"
  maxCueDurationSeconds :: "number option"
  minCueDurationSeconds :: "number option"
  maxWordsPerCue :: "number option"
  maxInterWordGapSeconds :: "number option"

definition buildCueTextFromWords :: "('n, 'z) TimedWordLike_scheme list \<Rightarrow> string" where
  "buildCueTextFromWords ws = normalizeCueText (join '' '' (map text ws))"

definition toFiniteNonNegativeNumber :: "number \<Rightarrow> rat" where
  "toFiniteNonNegativeNumber v = (case v of Finite x \<Rightarrow> max 0 x | _ \<Rightarrow> 0)"

text \<open>
  \<open>+x.toFixed(3)\<close>: the multiple of 1/1000 nearest to \<open>x\<close>, the larger one of two
  equally near (on the absolute value, with the sign put back).
\<close>

definition toFixed3 :: "rat \<Rightarrow> rat" where
  "toFixed3 x =
     (if x < 0 then - (of_int \<lfloor>(- x) * 1000 + 1 / 2\<rfloor> / 1000)
      else of_int \<lfloor>x * 1000 + 1 / 2\<rfloor> / 1000)"

definition normalizeTimedWord :: "(number, 'z) TimedWordLike_scheme \<Rightarrow> rat TimedWordLike option" where
  "normalizeTimedWord v =
     (let t = trim (text v) in
      if t = [] then None
      else
        let start = toFiniteNonNegativeNumber (start_time v);
            endCandidate = toFiniteNonNegativeNumber (end_time v);
            en = max start endCandidate
        in Some \<lparr> text = t, start_time = toFixed3 start, end_time = toFixed3 en \<rparr>)"

section \<open>webvtt.ts: segmentWordsIntoWebVttCues\<close>

text \<open>The six constants computed at the head of \<open>segmentWordsIntoWebVttCues\<close>.\<close>

record limits =
  limMaxCueChars :: number
  limMaxCueDurationSeconds :: number
  limHardMaxCueDurationSeconds :: number
  limMinCueDurationSeconds :: number
  limMaxWordsPerCue :: number
  limMaxInterWordGapSeconds :: number

text \<open>\<open>v ?? d\<close> for an optional field.\<close>

definition orDefault :: "'a option \<Rightarrow> 'a \<Rightarrow> 'a" where
  "orDefault v d = (case v of None \<Rightarrow> d | Some x \<Rightarrow> x)"

definition effectiveLimits :: "CaptionSegmentationOptions \<Rightarrow> limits" where
  "effectiveLimits options =
     (let mcc = numMax (Finite 28) (orDefault (maxCueChars options) (Finite 56));
          mcd = numMax (Finite (5 / 2))
                  (orDefault (maxCueDurationSeconds options) (Finite (13 / 2)))
      in \<lparr> limMaxCueChars = mcc,
           limMaxCueDurationSeconds = mcd,
           limHardMaxCueDurationSeconds =
             numMax (numAdd mcd (3 / 2)) (numTimes mcd (135 / 100)),
           limMinCueDurationSeconds =
             numMax (Finite (9 / 10))
               (orDefault (minCueDurationSeconds options) (Finite (14 / 10))),
           limMaxWordsPerCue =
             numMax (Finite 3) (orDefault (maxWordsPerCue options) (Finite 16)),
           limMaxInterWordGapSeconds =
             numMax (Finite (1 / 10))
               (orDefault (maxInterWordGapSeconds options) (Finite (11 / 10))) \<rparr>)"

text \<open>The words after \<open>map\<close>, \<open>filter\<close> and the (stable) \<open>sort\<close>.\<close>

definition normalizedWords :: "(number, 'z) TimedWordLike_scheme list \<Rightarrow> rat TimedWordLike list" where
  "normalizedWords inputWords =
     sort_key (\<lambda>w. (start_time w, end_time w)) (List.map_filter normalizeTimedWord inputWords)"

text \<open>The decision of one iteration of the grouping loop, for a non-empty \<open>currentWords\<close>.\<close>

definition shouldBreak :: "limits \<Rightarrow> rat TimedWordLike list \<Rightarrow> rat TimedWordLike \<Rightarrow> bool" where
  "shouldBreak lims currentWords word =
     (let previous = last currentWords;
          cueStart = start_time (hd currentWords);
          cueDuration = max 0 (end_time previous - cueStart);
          interWordGap = max 0 (start_time word - end_time previous);
          nextDuration = max 0 (end_time word - cueStart);
          nextText = buildCueTextFromWords (currentWords @ [word]);
          currentText = buildCueTextFromWords currentWords;
          currentEndsSentence = endsWithSentencePunctuation (text previous);
          currentEndsSoft = endsWithSoftPunctuation (text previous);
          nextStartsConnector = startsWithConnector (text word);
          currentIsDangling = isDanglingCueText currentText;
          currentEndsConnector = endsWithConnector currentText;
          shouldBreakOnHardLimit =
            (numLt (numTimes (limMaxInterWordGapSeconds lims) (18 / 10)) (Finite interWordGap)
             \<or> (length currentWords \<ge> 3
                 \<and> numLt (limHardMaxCueDurationSeconds lims) (Finite nextDuration))
             \<or> (length currentWords \<ge> 4
                 \<and> numLt (numRound (numTimes (limMaxCueChars lims) (165 / 100)))
                       (Finite (of_nat (length nextText))))
             \<or> numLe (numAdd (limMaxWordsPerCue lims) 4)
                   (Finite (of_nat (length currentWords))));
          shouldBreakOnSoftLimit =
            (numLt (limMaxInterWordGapSeconds lims) (Finite interWordGap)
             \<or> (length currentWords \<ge> 2
                 \<and> numLt (limMaxCueDurationSeconds lims) (Finite nextDuration))
             \<or> (length currentWords \<ge> 3
                 \<and> numLt (limMaxCueChars lims) (Finite (of_nat (length nextText))))
             \<or> numLe (limMaxWordsPerCue lims) (Finite (of_nat (length currentWords))));
          shouldBreakOnNaturalBoundary =
            (numLe (limMinCueDurationSeconds lims) (Finite cueDuration)
             \<and> (currentEndsSentence
                 \<or> (currentEndsSoft
                     \<and> (numLt (numRound (numTimes (limMaxCueChars lims) (72 / 100)))
                            (Finite (of_nat (length nextText)))
                         \<or> numLt (numTimes (limMaxCueDurationSeconds lims) (7 / 10))
                              (Finite nextDuration)))));
          shouldAvoidSoftBreak =
            (length currentWords < 3 \<or> currentIsDangling \<or> currentEndsConnector
             \<or> nextStartsConnector)
      in shouldBreakOnHardLimit \<or> shouldBreakOnNaturalBoundary
         \<or> (shouldBreakOnSoftLimit \<and> \<not> shouldAvoidSoftBreak))"

text \<open>
  The grouping loop: the state is \<open>(groups, currentWords)\<close>; \<open>flushCurrent\<close> pushes a
  non-empty \<open>currentWords\<close> and empties it.
\<close>

definition flushCurrent ::
  "rat TimedWordLike list list \<times> rat TimedWordLike list
   \<Rightarrow> rat TimedWordLike list list \<times> rat TimedWordLike list" where
  "flushCurrent st = (case st of (groups, currentWords) \<Rightarrow>
     if currentWords = [] then (groups, currentWords) else (groups @ [currentWords], []))"

definition groupStep ::
  "limits \<Rightarrow> rat TimedWordLike list list \<times> rat TimedWordLike list \<Rightarrow> rat TimedWordLike
   \<Rightarrow> rat TimedWordLike list list \<times> rat TimedWordLike list" where
  "groupStep lims st word = (case st of (groups, currentWords) \<Rightarrow>
     if currentWords = [] then (groups, [word])
     else case (if shouldBreak lims currentWords word then flushCurrent st else st) of
       (groups', currentWords') \<Rightarrow> (groups', currentWords' @ [word]))"

definition groupWords :: "limits \<Rightarrow> rat TimedWordLike list \<Rightarrow> rat TimedWordLike list list" where
  "groupWords lims ws = fst (flushCurrent (foldl (groupStep lims) ([], []) ws))"

definition canMerge :: "limits \<Rightarrow> rat TimedWordLike list \<Rightarrow> rat TimedWordLike list \<Rightarrow> bool" where
  "canMerge lims left right =
     (let merged = left @ right;
          mergedText = buildCueTextFromWords merged;
          duration = end_time (last merged) - start_time (hd merged)
      in numLe (Finite (of_nat (length mergedText)))
           (numRound (numTimes (limMaxCueChars lims) (175 / 100)))
         \<and> numLe (Finite duration) (numTimes (limHardMaxCueDurationSeconds lims) (3 / 2)))"

text \<open>\<open>groups[index] = [...a, ...b]; groups.splice(index + 1, 1)\<close>.\<close>

definition mergeAt :: "nat \<Rightarrow> 'a list list \<Rightarrow> 'a list list" where
  "mergeAt i groups = take i groups @ [groups ! i @ groups ! (i + 1)] @ drop (i + 2) groups"

text \<open>
  The repair loop \<open>for (index = 0; index < groups.length; index += 1)\<close>. Each of the
  three merges ends with \<open>index -= 1\<close>, so the next iteration has the same index.
\<close>

function repair :: "limits \<Rightarrow> nat \<Rightarrow> rat TimedWordLike list list \<Rightarrow> rat TimedWordLike list list" where
  "repair lims index groups =
     (if \<not> index < length groups then groups
      else
        let currentGroup = groups ! index;
            currentText = buildCueTextFromWords currentGroup;
            currentIsDangling =
              (isDanglingCueText currentText
               \<or> (length (splitCueWords currentText) \<le> 2
                   \<and> \<not> endsWithSentencePunctuation currentText));
            hasNext = (index + 1 < length groups);
            hasPrevious = (1 \<le> index);
            nextText = (if hasNext then buildCueTextFromWords (groups ! (index + 1)) else [])
        in
          if hasNext \<and> (endsWithConnector currentText \<or> startsWithConnector nextText)
             \<and> canMerge lims currentGroup (groups ! (index + 1))
          then repair lims index (mergeAt index groups)
          else if currentIsDangling \<and> hasPrevious
             \<and> canMerge lims (groups ! (index - 1)) currentGroup
          then repair lims index (mergeAt (index - 1) groups)
          else if currentIsDangling \<and> hasNext \<and> startsWithUppercase nextText
             \<and> canMerge lims currentGroup (groups ! (index + 1))
          then repair lims index (mergeAt index groups)
          else repair lims (index + 1) groups)"
  by pat_completeness auto
termination
  by (relation "measure (\<lambda>(lims, index, groups). 2 * length groups - index)")
    (auto simp: mergeAt_def)

declare repair.simps [simp del]

definition groupCue :: "rat TimedWordLike list \<Rightarrow> rat WebVttCue" where
  "groupCue g =
     \<lparr> text = buildCueTextFromWords g,
       start_time = start_time (hd g),
       end_time = max (start_time (hd g) + 1 / 1000) (end_time (last g)),
       identifier = None \<rparr>"

definition segmentWith :: "limits \<Rightarrow> rat TimedWordLike list \<Rightarrow> rat WebVttCue list" where
  "segmentWith lims ws =
     (if length ws = 0 then []
      else
        let groups = groupWords lims ws in
        if length groups \<le> 1 then map groupCue groups
        else filter (\<lambda>c. text c \<noteq> []) (map groupCue (repair lims 0 groups)))"

definition segmentWordsIntoWebVttCues ::
  "(number, 'z) TimedWordLike_scheme list \<Rightarrow> CaptionSegmentationOptions \<Rightarrow> rat WebVttCue list" where
  "segmentWordsIntoWebVttCues inputWords options =
     segmentWith (effectiveLimits options) (normalizedWords inputWords)"

section \<open>webvtt.ts: the WebVTT codec\<close>

definition isDigit :: "char \<Rightarrow> bool" where
  "isDigit c = (let n = of_char c :: int in 48 \<le> n \<and> n \<le> 57)"

definition digitValue :: "char \<Rightarrow> int" where
  "digitValue c = of_char c - 48"

text \<open>\<open>Number.parseInt(s, 10)\<close> on a non-empty string of decimal digits.\<close>

definition parseIntDigits :: "string \<Rightarrow> int" where
  "parseIntDigits s = foldl (\<lambda>n c. 10 * n + digitValue c) 0 s"

text \<open>\<open>value.split(sep)\<close> for a separator of one code unit.\<close>

function splitOn :: "char \<Rightarrow> string \<Rightarrow> string list" where
  "splitOn d s =
     takeWhile (\<lambda>c. c \<noteq> d) s
     # (case dropWhile (\<lambda>c. c \<noteq> d) s of [] \<Rightarrow> [] | _ # rest \<Rightarrow> splitOn d rest)"
  by pat_completeness auto
termination
proof (relation "measure (\<lambda>(d, s). length s)")
  fix d :: char and s x21 x22
  assume "dropWhile (\<lambda>c. c \<noteq> d) s = x21 # x22"
  then have "length x22 < length (dropWhile (\<lambda>c. c \<noteq> d) s)" by simp
  also have "\<dots> \<le> length s" by (rule length_dropWhile_le)
  finally show "((d, x22), (d, s)) \<in> measure (\<lambda>(d, s). length s)" by simp
qed simp

declare splitOn.simps [simp del]

text \<open>
  The part \<open>(\d{2})(?:[.,](\d{1,3}))?$\<close> of \<open>WEBVTT_TIMESTAMP\<close>: the seconds and the
  optional fraction.
\<close>

definition matchSeconds :: "string \<Rightarrow> (string \<times> string option) option" where
  "matchSeconds s =
     (if length s = 2 \<and> list_all isDigit s then Some (s, None)
      else if length s \<ge> 4 \<and> length s \<le> 6 \<and> list_all isDigit (take 2 s)
              \<and> (s ! 2 = CHR ''.'' \<or> s ! 2 = CHR '','') \<and> list_all isDigit (drop 3 s)
      then Some (take 2 s, Some (drop 3 s))
      else None)"

text \<open>
  \<open>WEBVTT_TIMESTAMP = /^(?:(\d+):)?(\d{2}):(\d{2})(?:[.,](\d{1,3}))?$/\<close>: the groups
  (hours, minutes, seconds, fraction) of a match. No group contains a colon, so the
  colons of the string are exactly those of the pattern.
\<close>

definition matchTimestamp ::
  "string \<Rightarrow> (string option \<times> string \<times> string \<times> string option) option" where
  "matchTimestamp v =
     (case splitOn (CHR '':'') v of
        [m, sec] \<Rightarrow>
          (if length m = 2 \<and> list_all isDigit m
           then (case matchSeconds sec of None \<Rightarrow> None
                 | Some (ss, fr) \<Rightarrow> Some (None, m, ss, fr))
           else None)
      | [h, m, sec] \<Rightarrow>
          (if h \<noteq> [] \<and> list_all isDigit h \<and> length m = 2 \<and> list_all isDigit m
           then (case matchSeconds sec of None \<Rightarrow> None
                 | Some (ss, fr) \<Rightarrow> Some (Some h, m, ss, fr))
           else None)
      | _ \<Rightarrow> None)"

definition padEnd :: "nat \<Rightarrow> char \<Rightarrow> string \<Rightarrow> string" where
  "padEnd n c s = s @ replicate (n - length s) c"

definition padStart :: "nat \<Rightarrow> char \<Rightarrow> string \<Rightarrow> string" where
  "padStart n c s = replicate (n - length s) c @ s"

text \<open>
  \<open>parseTimestamp\<close>. An integer read by \<open>Number.parseInt\<close> from digits is finite in the
  model, so the test \<open>!Number.isFinite(...)\<close> of the source never fires here.
\<close>

definition parseTimestamp :: "string \<Rightarrow> rat option" where
  "parseTimestamp rawValue =
     (let v = trim rawValue in
      if v = [] then None
      else case matchTimestamp v of
        None \<Rightarrow> None
      | Some (h, m, ss, fr) \<Rightarrow>
          let hours = parseIntDigits (case h of None \<Rightarrow> ''0'' | Some d \<Rightarrow> d);
              minutes = parseIntDigits m;
              seconds = parseIntDigits ss;
              millisecondsText =
                take 3 (padEnd 3 (CHR ''0'') (case fr of None \<Rightarrow> ''0'' | Some d \<Rightarrow> d));
              milliseconds = parseIntDigits millisecondsText
          in Some (max 0 (of_int hours * 3600 + of_int minutes * 60 + of_int seconds
                           + of_int milliseconds / 1000)))"

text \<open>\<open>String(n)\<close> for a non-negative integer \<open>n\<close>.\<close>

function intToString :: "int \<Rightarrow> string" where
  "intToString n =
     (if n < 10 then [char_of (48 + n)]
      else intToString (n div 10) @ [char_of (48 + n mod 10)])"
  by pat_completeness auto
termination
  by (relation "measure nat") auto

declare intToString.simps [simp del]

definition formatTimestamp :: "rat \<Rightarrow> string" where
  "formatTimestamp secondsValue =
     (let totalMilliseconds = max 0 (round (secondsValue * 1000));
          hours = totalMilliseconds div 3600000;
          minutes = (totalMilliseconds mod 3600000) div 60000;
          seconds = (totalMilliseconds mod 60000) div 1000;
          milliseconds = totalMilliseconds mod 1000
      in join '':'' [padStart 2 (CHR ''0'') (intToString hours),
                     padStart 2 (CHR ''0'') (intToString minutes),
                     padStart 2 (CHR ''0'') (intToString seconds)]
         @ ''.'' @ padStart 3 (CHR ''0'') (intToString milliseconds))"

definition sanitizeCue :: "(number, 'z) WebVttCue_scheme \<Rightarrow> rat WebVttCue option" where
  "sanitizeCue cue =
     (let t = trim (text cue) in
      if t = [] then None
      else
        let start = toFiniteNonNegativeNumber (start_time cue);
            endCandidate = toFiniteNonNegativeNumber (end_time cue);
            en = (if endCandidate > start then endCandidate else toFixed3 (start + 1 / 1000))
        in Some \<lparr> text = t, start_time = toFixed3 start, end_time = toFixed3 en,
                  identifier =
                    (case identifier cue of None \<Rightarrow> None
                     | Some i \<Rightarrow> if length (trim i) > 0 then Some (trim i) else None) \<rparr>)"

text \<open>\<open>.replace(/\n+$/, "\n")\<close>.\<close>

definition replaceTrailingNewlines :: "string \<Rightarrow> string" where
  "replaceTrailingNewlines s =
     (if s \<noteq> [] \<and> last s = CHR 0x0A
      then rev (dropWhile (\<lambda>c. c = CHR 0x0A) (rev s)) @ [CHR 0x0A]
      else s)"

definition cueLines :: "rat WebVttCue \<Rightarrow> string list" where
  "cueLines cue =
     (case identifier cue of None \<Rightarrow> [] | Some i \<Rightarrow> if i = [] then [] else [i])
     @ [formatTimestamp (start_time cue) @ '' --> '' @ formatTimestamp (end_time cue),
        text cue,
        []]"

definition serializeWebVttCues :: "(number, 'z) WebVttCue_scheme list \<Rightarrow> string" where
  "serializeWebVttCues input =
     (let cues = sort_key (\<lambda>c. (start_time c, end_time c)) (List.map_filter sanitizeCue input)
      in if length cues = 0 then ''WEBVTT'' @ [CHR 0x0A, CHR 0x0A]
         else replaceTrailingNewlines
                (join [CHR 0x0A] ([''WEBVTT'', []] @ concat (map cueLines cues))))"

text \<open>
  \<open>trimmed.split(/\n{2,}/)\<close>: a separator is a whole run of two or more line feeds;
  \<open>cur\<close> is the piece read so far.
\<close>

function splitBlocksFrom :: "string \<Rightarrow> string \<Rightarrow> string list" where
  "splitBlocksFrom cur [] = [cur]"
| "splitBlocksFrom cur (c # cs) =
     (if c = CHR 0x0A \<and> cs \<noteq> [] \<and> hd cs = CHR 0x0A
      then cur # splitBlocksFrom [] (dropWhile (\<lambda>d. d = CHR 0x0A) cs)
      else splitBlocksFrom (cur @ [c]) cs)"
  by pat_completeness auto
termination
  by (relation "measure (\<lambda>(cur, s). length s)")
    (auto simp: less_Suc_eq_le length_dropWhile_le)

definition splitBlocks :: "string \<Rightarrow> string list" where
  "splitBlocks s = splitBlocksFrom [] s"

text \<open>
  \<open>WEBVTT_HEADER = /^WEBVTT(?:[ \t].*)?$/i\<close>; the dot matches no line terminator.
\<close>

definition isLineTerminator :: "char \<Rightarrow> bool" where
  "isLineTerminator c = (c = CHR 0x0A \<or> c = CHR 0x0D)"

definition matchesHeader :: "string \<Rightarrow> bool" where
  "matchesHeader line =
     (startsWithCI ''WEBVTT'' line
      \<and> (case drop 6 line of
            [] \<Rightarrow> True
          | c # rest \<Rightarrow> (c = CHR '' '' \<or> c = CHR 0x09) \<and> \<not> list_ex isLineTerminator rest))"

definition startsWith :: "string \<Rightarrow> string \<Rightarrow> bool" where
  "startsWith pat s = (take (length pat) s = pat)"

fun includesStr :: "string \<Rightarrow> string \<Rightarrow> bool" where
  "includesStr pat [] = (pat = [])"
| "includesStr pat (c # cs) = (startsWith pat (c # cs) \<or> includesStr pat cs)"

text \<open>
  \<open>WEBVTT_TIMING_LINE = /^([^\s]+)\s+-->\s+([^\s]+)(?:\s+.*)?$/\<close>: the two groups of a
  match. Each greedy run is followed by a code unit outside its class, so each run is
  the maximal one.
\<close>

definition matchTimingLine :: "string \<Rightarrow> (string \<times> string) option" where
  "matchTimingLine line =
     (let g1 = takeWhile (\<lambda>c. \<not> isSpace c) line;
          r1 = dropWhile (\<lambda>c. \<not> isSpace c) line;
          r2 = dropWhile isSpace r1;
          r3 = drop 3 r2;
          r4 = dropWhile isSpace r3;
          g2 = takeWhile (\<lambda>c. \<not> isSpace c) r4;
          r5 = dropWhile (\<lambda>c. \<not> isSpace c) r4
      in if g1 \<noteq> [] \<and> takeWhile isSpace r1 \<noteq> [] \<and> startsWith ''-->'' r2
            \<and> takeWhile isSpace r3 \<noteq> [] \<and> g2 \<noteq> []
            \<and> \<not> list_ex isLineTerminator (dropWhile isSpace r5)
         then Some (g1, g2) else None)"

text \<open>The search for the timing line in the first two lines of a block.\<close>

definition findTimingIndex :: "string list \<Rightarrow> nat option" where
  "findTimingIndex lines =
     (if 0 < min (length lines) 2 \<and> includesStr ''-->'' (lines ! 0) then Some 0
      else if 1 < min (length lines) 2 \<and> includesStr ''-->'' (lines ! 1) then Some 1
      else None)"

text \<open>The body of the loop over the blocks: the cue of a block, or \<open>None\<close> at a \<open>continue\<close>.\<close>

definition parseBlock :: "string \<Rightarrow> rat WebVttCue option" where
  "parseBlock rawBlock =
     (let block = trim rawBlock in
      if block = [] then None
      else
        let lines = map trimEnd (splitOn (CHR 0x0A) block) in
        if length lines = 0 then None
        else
          let firstLine = trim (lines ! 0) in
          if startsWith ''NOTE'' firstLine \<or> firstLine = ''STYLE'' \<or> firstLine = ''REGION''
          then None
          else case findTimingIndex lines of
            None \<Rightarrow> None
          | Some timingIndex \<Rightarrow>
              (case matchTimingLine (trim (lines ! timingIndex)) of
                 None \<Rightarrow> None
               | Some (g1, g2) \<Rightarrow>
                   (case (parseTimestamp g1, parseTimestamp g2) of
                      (Some start, Some en) \<Rightarrow>
                        if en < start then None
                        else
                          let cueText =
                                normalizeCueText (join '' '' (drop (timingIndex + 1) lines))
                          in if cueText = [] then None
                             else Some \<lparr> text = cueText,
                                         start_time = toFixed3 start,
                                         end_time = toFixed3 en,
                                         identifier =
                                           (if timingIndex > 0 \<and> trim (lines ! 0) \<noteq> []
                                            then Some (trim (lines ! 0)) else None) \<rparr>
                    | _ \<Rightarrow> None)))"

text \<open>
  \<open>parseWebVttCues\<close>. The byte order mark U+FEFF is not a code unit of the model, so
  the removal of a leading mark changes nothing here.
\<close>

definition parseWebVttCues :: "string \<Rightarrow> rat WebVttCue list" where
  "parseWebVttCues rawValue =
     (let normalized = normalizeLineEndings rawValue;
          trimmed = trim normalized
      in if trimmed = [] then []
         else
           let blocks = splitBlocks trimmed;
               headerLine = trim (hd (splitOn (CHR 0x0A) (hd blocks)))
           in if \<not> matchesHeader headerLine then []
              else List.map_filter parseBlock (tl blocks))"

section \<open>stt-streaming.ts: SmartProgressiveStreamingHandler\<close>

text \<open>
  The recognizer is the only collaborator of the handler. It is modelled as a function of
  the samples it is given, returning either the error it throws or its result; the
  functions of the handler return, beside their value and the new state of the handler,
  the list of the sample windows they passed to the recognizer, in order.

  The numbers of this section (the configuration, and the times of the words that the
  recognizer returns) are finite numbers, modelled as exact rationals: the handler
  computes with them without any test, and the properties below are stated for finite
  numbers only.
\<close>

record 'n ParakeetWord = "'n TimedWordLike" +
  confidence :: "rat option"

record ParakeetTranscriptionResult =
  "text" :: string
  "words" :: "rat ParakeetWord list"
  latencySeconds :: rat
  audioDurationSeconds :: rat
  rtf :: rat

record Metadata =
  mLatencySeconds :: rat
  mAudioDurationSeconds :: rat
  mRtf :: rat

record PartialTranscription =
  fixedText :: string
  activeText :: string
  timestamp :: rat
  isFinal :: bool
  "words" :: "rat ParakeetWord list option"
  metadata :: "Metadata option"

datatype error = RecognizerError string

type_synonym 'a recognizer = "'a list \<Rightarrow> error + ParakeetTranscriptionResult"

text \<open>The read-only fields set by the constructor.\<close>

record StreamingConfig =
  emissionIntervalSeconds :: rat
  maxWindowSeconds :: rat
  sentenceBufferSeconds :: rat
  sampleRate :: rat

record StreamingOptions =
  optEmissionIntervalSeconds :: "rat option"
  optMaxWindowSeconds :: "rat option"
  optSentenceBufferSeconds :: "rat option"
  optSampleRate :: "rat option"

definition PARAKEET_SAMPLE_RATE :: rat where
  "PARAKEET_SAMPLE_RATE = 16000"

definition newConfig :: "StreamingOptions \<Rightarrow> StreamingConfig" where
  "newConfig options =
     \<lparr> emissionIntervalSeconds = orDefault (optEmissionIntervalSeconds options) (1 / 2),
       maxWindowSeconds = orDefault (optMaxWindowSeconds options) 15,
       sentenceBufferSeconds = orDefault (optSentenceBufferSeconds options) 2,
       sampleRate = orDefault (optSampleRate options) PARAKEET_SAMPLE_RATE \<rparr>"

text \<open>The mutable fields of the handler.\<close>

record HandlerState =
  fixedSentences :: "string list"
  fixedWords :: "rat ParakeetWord list"
  fixedEndTime :: rat
  lastTranscribedLength :: nat

definition reset :: HandlerState where
  "reset = \<lparr> fixedSentences = [], fixedWords = [], fixedEndTime = 0, lastTranscribedLength = 0 \<rparr>"

text \<open>
  \<open>Float32Array.prototype.slice(start, end)\<close>: a negative index counts from the end, and
  both indices are clamped to the array.
\<close>

definition relativeIndex :: "nat \<Rightarrow> int \<Rightarrow> nat" where
  "relativeIndex len i = (if i < 0 then nat (max (int len + i) 0) else min (nat i) len)"

definition slice :: "'a list \<Rightarrow> int \<Rightarrow> int option \<Rightarrow> 'a list" where
  "slice a start en =
     (let k = relativeIndex (length a) start;
          final = (case en of None \<Rightarrow> length a | Some e \<Rightarrow> relativeIndex (length a) e)
      in take (final - k) (drop k a))"

definition toAbsoluteWord :: "rat \<Rightarrow> rat ParakeetWord \<Rightarrow> rat ParakeetWord" where
  "toAbsoluteWord base word =
     word \<lparr> start_time := base + start_time word, end_time := base + end_time word \<rparr>"

definition resultMetadata :: "ParakeetTranscriptionResult \<Rightarrow> Metadata" where
  "resultMetadata result =
     \<lparr> mLatencySeconds = latencySeconds result,
       mAudioDurationSeconds = audioDurationSeconds result,
       mRtf = rtf result \<rparr>"

text \<open>The value returned at the end of \<open>transcribeIncremental\<close>.\<close>

definition incrementalResult ::
  "StreamingConfig \<Rightarrow> HandlerState \<Rightarrow> nat \<Rightarrow> ParakeetTranscriptionResult \<Rightarrow> rat
   \<Rightarrow> PartialTranscription" where
  "incrementalResult cfg st audioLength result activeWindowBaseTime =
     \<lparr> fixedText = trim (join '' '' (fixedSentences st)),
       activeText = trim (ParakeetTranscriptionResult.text result),
       timestamp = of_nat audioLength / sampleRate cfg,
       isFinal = False,
       words = Some (fixedWords st
                     @ map (toAbsoluteWord activeWindowBaseTime)
                         (ParakeetTranscriptionResult.words result)),
       metadata = Some (resultMetadata result) \<rparr>"

text \<open>
  The two pushes made when \<open>lockableWords\<close> is not empty:
  \<open>fixedSentences.push(chunk)\<close> for a non-empty chunk, and
  \<open>fixedWords.push(...lockableWords.map(toAbsolute))\<close>.
\<close>

definition pushSentence :: "string \<Rightarrow> HandlerState \<Rightarrow> HandlerState" where
  "pushSentence chunk st =
     (if chunk \<noteq> [] then st \<lparr> fixedSentences := fixedSentences st @ [chunk] \<rparr> else st)"

definition pushWords :: "rat \<Rightarrow> rat ParakeetWord list \<Rightarrow> HandlerState \<Rightarrow> HandlerState" where
  "pushWords base ws st = st \<lparr> fixedWords := fixedWords st @ map (toAbsoluteWord base) ws \<rparr>"

definition joinedText :: "rat ParakeetWord list \<Rightarrow> string" where
  "joinedText ws = trim (join '' '' (map TimedWordLike.text ws))"

text \<open>\<open>result.words.filter((word) => word.end_time < cutoff)\<close>.\<close>

definition lockable :: "rat \<Rightarrow> ParakeetTranscriptionResult \<Rightarrow> rat ParakeetWord list" where
  "lockable cutoff result =
     filter (\<lambda>word. end_time word < cutoff) (ParakeetTranscriptionResult.words result)"

text \<open>
  The state of \<open>transcribeIncremental\<close> after the three mutations of a lock: the two
  pushes and \<open>this.fixedEndTime += lockableWords[lockableWords.length - 1].end_time\<close>.
\<close>

definition lockWords :: "HandlerState \<Rightarrow> rat ParakeetWord list \<Rightarrow> HandlerState" where
  "lockWords st lockableWords =
     (pushWords (fixedEndTime st) lockableWords (pushSentence (joinedText lockableWords) st))
     \<lparr> fixedEndTime := fixedEndTime st + end_time (last lockableWords) \<rparr>"

definition transcribeIncremental ::
  "StreamingConfig \<Rightarrow> 'a recognizer \<Rightarrow> HandlerState \<Rightarrow> 'a list
   \<Rightarrow> (error + PartialTranscription) \<times> HandlerState \<times> 'a list list" where
  "transcribeIncremental cfg model st audio =
     (if of_nat (length audio) < sampleRate cfg * (1 / 2)
         \<or> length audio = lastTranscribedLength st
      then (Inr \<lparr> fixedText = join '' '' (fixedSentences st),
                  activeText = [],
                  timestamp = of_nat (length audio) / sampleRate cfg,
                  isFinal = False,
                  words = Some (fixedWords st),
                  metadata = None \<rparr>, st, [])
      else
        let st1 = st \<lparr> lastTranscribedLength := length audio \<rparr>;
            windowBaseTime = fixedEndTime st1;
            startSamples = \<lfloor>windowBaseTime * sampleRate cfg\<rfloor>;
            transcriptionWindow = slice audio startSamples None
        in case model transcriptionWindow of
             Inl e \<Rightarrow> (Inl e, st1, [transcriptionWindow])
           | Inr result \<Rightarrow>
               let windowDuration = of_nat (length transcriptionWindow) / sampleRate cfg;
                   unlocked =
                     (Inr (incrementalResult cfg st1 (length audio) result windowBaseTime),
                      st1, [transcriptionWindow])
               in if windowDuration \<ge> maxWindowSeconds cfg
                     \<and> length (ParakeetTranscriptionResult.words result) > 0
                  then
                    let cutoff = windowDuration - sentenceBufferSeconds cfg;
                        lockableWords = lockable cutoff result
                    in if length lockableWords > 0
                       then
                         let st2 = lockWords st1 lockableWords;
                             nextStartSamples = \<lfloor>fixedEndTime st2 * sampleRate cfg\<rfloor>;
                             nextWindow = slice audio nextStartSamples None
                         in case model nextWindow of
                              Inl e \<Rightarrow> (Inl e, st2, [transcriptionWindow, nextWindow])
                            | Inr result2 \<Rightarrow>
                                (Inr (incrementalResult cfg st2 (length audio) result2
                                        (fixedEndTime st2)),
                                 st2, [transcriptionWindow, nextWindow])
                       else unlocked
                  else unlocked)"







section \<open>Example inputs\<close>

text \<open>Four words, 0.2 s each, whose joined text has 30 characters.\<close>

definition fourWords :: "number TimedWordLike list" where
  "fourWords =
     [\<lparr> TimedWordLike.text = ''alphabet'', start_time = Finite 0, end_time = Finite (1 / 5) \<rparr>,
      \<lparr> TimedWordLike.text = ''betatron'', start_time = Finite (1 / 5), end_time = Finite (2 / 5) \<rparr>,
      \<lparr> TimedWordLike.text = ''gamma'', start_time = Finite (2 / 5), end_time = Finite (3 / 5) \<rparr>,
      \<lparr> TimedWordLike.text = ''omega.'', start_time = Finite (3 / 5), end_time = Finite (4 / 5) \<rparr>]"

text \<open>The options \<open>{}\<close> and \<open>{ maxCueChars: v }\<close>.\<close>

definition noOptions :: CaptionSegmentationOptions where
  "noOptions =
     \<lparr> maxCueChars = None, maxCueDurationSeconds = None, minCueDurationSeconds = None,
       maxWordsPerCue = None, maxInterWordGapSeconds = None \<rparr>"

definition onlyMaxCueChars :: "number \<Rightarrow> CaptionSegmentationOptions" where
  "onlyMaxCueChars v = noOptions \<lparr> maxCueChars := Some v \<rparr>"

text \<open>
  The configurations and recognizers of \<open>stt-streaming.test.ts\<close>: a sample rate of 10,
  a sentence buffer of 2 s and a window of 6 s or 15 s; \<open>new Float32Array(n)\<close> is
  \<open>silence n\<close>.
\<close>

definition testConfig :: "rat \<Rightarrow> StreamingConfig" where
  "testConfig window =
     newConfig \<lparr> optEmissionIntervalSeconds = None, optMaxWindowSeconds = Some window,
                 optSentenceBufferSeconds = Some 2, optSampleRate = Some 10 \<rparr>"

definition silence :: "nat \<Rightarrow> rat list" where
  "silence n = replicate n 0"

definition timedWord :: "string \<Rightarrow> rat \<Rightarrow> rat \<Rightarrow> rat ParakeetWord" where
  "timedWord t s e =
     \<lparr> TimedWordLike.text = t, start_time = s, end_time = e, confidence = None \<rparr>"

definition alphaBeta :: ParakeetTranscriptionResult where
  "alphaBeta =
     \<lparr> ParakeetTranscriptionResult.text = ''alpha beta'',
       ParakeetTranscriptionResult.words = [timedWord ''alpha'' 0 1, timedWord ''beta'' 1 2],
       latencySeconds = 1 / 20, audioDurationSeconds = 2, rtf = 20 \<rparr>"

text \<open>A recognizer that answers a window of 60 samples and fails on any other.\<close>

definition failsAfterFirst :: "rat recognizer" where
  "failsAfterFirst window =
     (if length window = 60 then Inr alphaBeta else Inl (RecognizerError ''offline''))"









section \<open>Predicates on the state of the handler\<close>

text \<open>
  The sentences that the handler pushes are trimmed and not empty; on such a list
  \<open>join(" ")\<close> and \<open>join(" ").trim()\<close> agree.
\<close>

definition sentencesTrimmed :: "HandlerState \<Rightarrow> bool" where
  "sentencesTrimmed st = list_all (\<lambda>s. s \<noteq> [] \<and> trim s = s) (fixedSentences st)"




section \<open>Properties of the caption segmenter\<close>

lemma effectiveLimits_below_floor:
  "a \<le> 28 \<Longrightarrow>
     effectiveLimits (options\<lparr>maxCueChars := Some (Finite a)\<rparr>)
     = effectiveLimits (options\<lparr>maxCueChars := Some (Finite 28)\<rparr>)"
  "b \<le> 5 / 2 \<Longrightarrow>
     effectiveLimits (options\<lparr>maxCueDurationSeconds := Some (Finite b)\<rparr>)
     = effectiveLimits (options\<lparr>maxCueDurationSeconds := Some (Finite (5 / 2))\<rparr>)"
  "c \<le> 9 / 10 \<Longrightarrow>
     effectiveLimits (options\<lparr>minCueDurationSeconds := Some (Finite c)\<rparr>)
     = effectiveLimits (options\<lparr>minCueDurationSeconds := Some (Finite (9 / 10))\<rparr>)"
  "d \<le> 3 \<Longrightarrow>
     effectiveLimits (options\<lparr>maxWordsPerCue := Some (Finite d)\<rparr>)
     = effectiveLimits (options\<lparr>maxWordsPerCue := Some (Finite 3)\<rparr>)"
  "e \<le> 1 / 10 \<Longrightarrow>
     effectiveLimits (options\<lparr>maxInterWordGapSeconds := Some (Finite e)\<rparr>)
     = effectiveLimits (options\<lparr>maxInterWordGapSeconds := Some (Finite (1 / 10))\<rparr>)"
  by (simp_all add: effectiveLimits_def orDefault_def max_absorb1)

lemma effectiveLimits_finite_option:
  "limMaxCueChars (effectiveLimits (options\<lparr>maxCueChars := Some (Finite x)\<rparr>))
   = Finite (max 28 x)"
  "limMaxCueDurationSeconds (effectiveLimits (options\<lparr>maxCueDurationSeconds := Some (Finite x)\<rparr>))
   = Finite (max (5 / 2) x)"
  "limMinCueDurationSeconds (effectiveLimits (options\<lparr>minCueDurationSeconds := Some (Finite x)\<rparr>))
   = Finite (max (9 / 10) x)"
  "limMaxWordsPerCue (effectiveLimits (options\<lparr>maxWordsPerCue := Some (Finite x)\<rparr>))
   = Finite (max 3 x)"
  "limMaxInterWordGapSeconds (effectiveLimits (options\<lparr>maxInterWordGapSeconds := Some (Finite x)\<rparr>))
   = Finite (max (1 / 10) x)"
  by (simp_all add: effectiveLimits_def orDefault_def Let_def)

lemma numMax_floor: "v \<noteq> NaN \<Longrightarrow> numLe (Finite f) (numMax (Finite f) v)"
  by (cases v) simp_all

lemma effectiveLimits_floors:
  "maxCueChars options \<noteq> Some NaN \<Longrightarrow>
     numLe (Finite 28) (limMaxCueChars (effectiveLimits options))"
  "maxCueDurationSeconds options \<noteq> Some NaN \<Longrightarrow>
     numLe (Finite (5 / 2)) (limMaxCueDurationSeconds (effectiveLimits options))"
  "minCueDurationSeconds options \<noteq> Some NaN \<Longrightarrow>
     numLe (Finite (9 / 10)) (limMinCueDurationSeconds (effectiveLimits options))"
  "maxWordsPerCue options \<noteq> Some NaN \<Longrightarrow>
     numLe (Finite 3) (limMaxWordsPerCue (effectiveLimits options))"
  "maxInterWordGapSeconds options \<noteq> Some NaN \<Longrightarrow>
     numLe (Finite (1 / 10)) (limMaxInterWordGapSeconds (effectiveLimits options))"
  by (auto simp: effectiveLimits_def orDefault_def Let_def split: option.splits
      intro: numMax_floor)

text \<open>
  The four words under three values of \<open>maxCueChars\<close>: cut in two at 28 characters,
  one cue at 30, one cue at \<open>NaN\<close>.
\<close>

lemma fourWords_at_28:
  "segmentWordsIntoWebVttCues fourWords (onlyMaxCueChars (Finite 28))
   = [\<lparr> TimedWordLike.text = ''alphabet betatron gamma'',
        start_time = 0, end_time = 3 / 5, identifier = None \<rparr>,
      \<lparr> TimedWordLike.text = ''omega.'',
        start_time = 3 / 5, end_time = 4 / 5, identifier = None \<rparr>]"
  by code_simp

lemma fourWords_at_30:
  "segmentWordsIntoWebVttCues fourWords (onlyMaxCueChars (Finite 30))
   = [\<lparr> TimedWordLike.text = ''alphabet betatron gamma omega.'',
        start_time = 0, end_time = 4 / 5, identifier = None \<rparr>]"
  by code_simp

lemma fourWords_at_NaN:
  "segmentWordsIntoWebVttCues fourWords (onlyMaxCueChars NaN)
   = [\<lparr> TimedWordLike.text = ''alphabet betatron gamma omega.'',
        start_time = 0, end_time = 4 / 5, identifier = None \<rparr>]"
  by code_simp

text \<open>
  Claim C9, as stated, says that for every options record the effective limits are at
  least their floors. An option that is \<open>NaN\<close> is not clamped: \<open>Math.max(28, NaN)\<close> is
  \<open>NaN\<close>, every comparison with the limit is false, and the four words that are cut in
  two at the floor of 28 characters stay in one cue.
\<close>

theorem segment_options_nan_not_clamped:
  "limMaxCueChars (effectiveLimits (onlyMaxCueChars NaN)) = NaN
   \<and> \<not> numLe (Finite 28) (limMaxCueChars (effectiveLimits (onlyMaxCueChars NaN)))
   \<and> segmentWordsIntoWebVttCues fourWords (onlyMaxCueChars NaN)
       = [\<lparr> TimedWordLike.text = ''alphabet betatron gamma omega.'',
            start_time = 0, end_time = 4 / 5, identifier = None \<rparr>]
   \<and> segmentWordsIntoWebVttCues fourWords (onlyMaxCueChars (Finite 28))
       = [\<lparr> TimedWordLike.text = ''alphabet betatron gamma'',
            start_time = 0, end_time = 3 / 5, identifier = None \<rparr>,
          \<lparr> TimedWordLike.text = ''omega.'',
            start_time = 3 / 5, end_time = 4 / 5, identifier = None \<rparr>]"
  by (simp add: fourWords_at_NaN fourWords_at_28)
    (simp add: effectiveLimits_def onlyMaxCueChars_def noOptions_def orDefault_def)

text \<open>
  Claim C9, amended. For every options record and every word list, an option that is a
  finite number at or below its floor (28 characters, 2.5 s, 0.9 s, 3 words, 0.1 s)
  gives the same cues as that option set to the floor; the limit computed from a finite
  option \<open>x\<close> is \<open>max floor x\<close>; and the limit computed from an option that is absent
  or is not \<open>NaN\<close> is at least the floor.
\<close>

theorem segment_options_clamped_to_floors:
  assumes "a \<le> 28" and "b \<le> 5 / 2" and "c \<le> 9 / 10" and "d \<le> 3" and "e \<le> 1 / 10"
  shows "segmentWordsIntoWebVttCues ws (options\<lparr>maxCueChars := Some (Finite a)\<rparr>)
         = segmentWordsIntoWebVttCues ws (options\<lparr>maxCueChars := Some (Finite 28)\<rparr>)
       \<and> segmentWordsIntoWebVttCues ws (options\<lparr>maxCueDurationSeconds := Some (Finite b)\<rparr>)
         = segmentWordsIntoWebVttCues ws
             (options\<lparr>maxCueDurationSeconds := Some (Finite (5 / 2))\<rparr>)
       \<and> segmentWordsIntoWebVttCues ws (options\<lparr>minCueDurationSeconds := Some (Finite c)\<rparr>)
         = segmentWordsIntoWebVttCues ws
             (options\<lparr>minCueDurationSeconds := Some (Finite (9 / 10))\<rparr>)
       \<and> segmentWordsIntoWebVttCues ws (options\<lparr>maxWordsPerCue := Some (Finite d)\<rparr>)
         = segmentWordsIntoWebVttCues ws (options\<lparr>maxWordsPerCue := Some (Finite 3)\<rparr>)
       \<and> segmentWordsIntoWebVttCues ws (options\<lparr>maxInterWordGapSeconds := Some (Finite e)\<rparr>)
         = segmentWordsIntoWebVttCues ws
             (options\<lparr>maxInterWordGapSeconds := Some (Finite (1 / 10))\<rparr>)
       \<and> limMaxCueChars (effectiveLimits (options\<lparr>maxCueChars := Some (Finite x)\<rparr>))
         = Finite (max 28 x)
       \<and> limMaxCueDurationSeconds
           (effectiveLimits (options\<lparr>maxCueDurationSeconds := Some (Finite x)\<rparr>))
         = Finite (max (5 / 2) x)
       \<and> limMinCueDurationSeconds
           (effectiveLimits (options\<lparr>minCueDurationSeconds := Some (Finite x)\<rparr>))
         = Finite (max (9 / 10) x)
       \<and> limMaxWordsPerCue (effectiveLimits (options\<lparr>maxWordsPerCue := Some (Finite x)\<rparr>))
         = Finite (max 3 x)
       \<and> limMaxInterWordGapSeconds
           (effectiveLimits (options\<lparr>maxInterWordGapSeconds := Some (Finite x)\<rparr>))
         = Finite (max (1 / 10) x)
       \<and> (maxCueChars options \<noteq> Some NaN
            \<longrightarrow> numLe (Finite 28) (limMaxCueChars (effectiveLimits options)))
       \<and> (maxCueDurationSeconds options \<noteq> Some NaN
            \<longrightarrow> numLe (Finite (5 / 2)) (limMaxCueDurationSeconds (effectiveLimits options)))
       \<and> (minCueDurationSeconds options \<noteq> Some NaN
            \<longrightarrow> numLe (Finite (9 / 10)) (limMinCueDurationSeconds (effectiveLimits options)))
       \<and> (maxWordsPerCue options \<noteq> Some NaN
            \<longrightarrow> numLe (Finite 3) (limMaxWordsPerCue (effectiveLimits options)))
       \<and> (maxInterWordGapSeconds options \<noteq> Some NaN
            \<longrightarrow> numLe (Finite (1 / 10)) (limMaxInterWordGapSeconds (effectiveLimits options)))"
proof -
  note fixed = effectiveLimits_below_floor(1) [OF assms(1), of options]
    effectiveLimits_below_floor(2) [OF assms(2), of options]
    effectiveLimits_below_floor(3) [OF assms(3), of options]
    effectiveLimits_below_floor(4) [OF assms(4), of options]
    effectiveLimits_below_floor(5) [OF assms(5), of options]
  show ?thesis
    unfolding segmentWordsIntoWebVttCues_def fixed
    by (intro conjI refl impI effectiveLimits_floors effectiveLimits_finite_option)
qed

text \<open>
  The theorem at \<open>maxCueChars: 1\<close> on the four words: the cues are those of
  \<open>maxCueChars: 28\<close>, two cues, whereas \<open>maxCueChars: 30\<close> gives one cue.
\<close>

theorem segment_options_clamped_to_floors_witness:
  "segmentWordsIntoWebVttCues fourWords (onlyMaxCueChars (Finite 1))
     = segmentWordsIntoWebVttCues fourWords (onlyMaxCueChars (Finite 28))
   \<and> segmentWordsIntoWebVttCues fourWords (onlyMaxCueChars (Finite 1))
     = [\<lparr> TimedWordLike.text = ''alphabet betatron gamma'',
          start_time = 0, end_time = 3 / 5, identifier = None \<rparr>,
        \<lparr> TimedWordLike.text = ''omega.'',
          start_time = 3 / 5, end_time = 4 / 5, identifier = None \<rparr>]
   \<and> segmentWordsIntoWebVttCues fourWords (onlyMaxCueChars (Finite 30))
     = [\<lparr> TimedWordLike.text = ''alphabet betatron gamma omega.'',
          start_time = 0, end_time = 4 / 5, identifier = None \<rparr>]
   \<and> limMaxCueChars (effectiveLimits (onlyMaxCueChars (Finite 1))) = Finite 28
   \<and> limMaxCueChars (effectiveLimits (onlyMaxCueChars (Finite 29))) = Finite 29
   \<and> numLe (Finite 28) (limMaxCueChars (effectiveLimits noOptions))"
proof -
  have le: "(1 :: rat) \<le> 28" "(0 :: rat) \<le> 5 / 2" "(0 :: rat) \<le> 9 / 10" "(0 :: rat) \<le> 3"
    "(0 :: rat) \<le> 1 / 10"
    by simp_all
  have notNaN: "maxCueChars noOptions \<noteq> Some NaN"
    by (simp add: noOptions_def)
  note thm1 = segment_options_clamped_to_floors [OF le, of fourWords noOptions 1]
  note thm29 = segment_options_clamped_to_floors [OF le, of fourWords noOptions 29]
  from thm1 have eq: "segmentWordsIntoWebVttCues fourWords (onlyMaxCueChars (Finite 1))
     = segmentWordsIntoWebVttCues fourWords (onlyMaxCueChars (Finite 28))"
    unfolding onlyMaxCueChars_def by blast
  from thm1 have l1: "limMaxCueChars (effectiveLimits (onlyMaxCueChars (Finite 1)))
      = Finite (max 28 1)"
    unfolding onlyMaxCueChars_def by blast
  from thm29 have l29: "limMaxCueChars (effectiveLimits (onlyMaxCueChars (Finite 29)))
      = Finite (max 28 29)"
    unfolding onlyMaxCueChars_def by blast
  from thm1 notNaN have fl: "numLe (Finite 28) (limMaxCueChars (effectiveLimits noOptions))"
    by blast
  show ?thesis using eq fourWords_at_28 fourWords_at_30 l1 l29 fl by simp
qed

text \<open>
  In the model, where times are exact rationals, every cue of the segmenter ends at least
  one millisecond after it starts.
\<close>

lemma groupCue_duration: "start_time (groupCue g) + 1 / 1000 \<le> end_time (groupCue g)"
  by (simp add: groupCue_def)

lemma segment_cue_duration:
  "c \<in> set (segmentWordsIntoWebVttCues ws options) \<Longrightarrow> start_time c + 1 / 1000 \<le> end_time c"
  by (auto simp: segmentWordsIntoWebVttCues_def segmentWith_def Let_def groupCue_duration
      split: if_splits)

text \<open>
  When the words form more than one group, the cues with an empty text are removed.
\<close>

lemma segmentWith_text_nonempty:
  "1 < length (groupWords lims ws) \<Longrightarrow> c \<in> set (segmentWith lims ws) \<Longrightarrow> TimedWordLike.text c \<noteq> []"
  by (auto simp: segmentWith_def Let_def split: if_splits)

text \<open>
  Claim C1 (non-empty text, and an end after the start). The first half fails when the
  words form one group: that branch returns the cue without looking at its text, whereas
  the other branch removes the cues with an empty text. A single word that is only
  markup gives a cue with an empty text.
\<close>

theorem segment_single_group_empty_text:
  "segmentWordsIntoWebVttCues
     [\<lparr> TimedWordLike.text = ''<b>'', start_time = Finite 0, end_time = Finite 1 \<rparr>]
     \<lparr> maxCueChars = None, maxCueDurationSeconds = None, minCueDurationSeconds = None,
       maxWordsPerCue = None, maxInterWordGapSeconds = None \<rparr>
   = [\<lparr> TimedWordLike.text = [], start_time = 0, end_time = 1, identifier = None \<rparr>]"
  by code_simp

section \<open>Lone connector words\<close>
















section \<open>Properties of the WebVTT codec\<close>

text \<open>
  Claim C10. \<open>parseWebVttCues\<close> skips a block only when the end is before the start, so
  a timing line with equal times gives a cue of zero duration (second conjunct). The
  claim adds that \<open>serializeWebVttCues\<close> never produces such a cue. \<open>sanitizeCue\<close> raises
  an end that is not after the start to the start plus one millisecond, but it compares
  the times before it rounds them to milliseconds: a cue from 1.0001 s to 1.0002 s passes
  the comparison and is written with equal times (first conjunct).
\<close>

theorem serialize_emits_zero_duration_cue:
  "serializeWebVttCues
     [\<lparr> TimedWordLike.text = ''x'', start_time = Finite (10001 / 10000),
        end_time = Finite (10002 / 10000), identifier = None \<rparr>]
   = ''WEBVTT'' @ [CHR 0x0A, CHR 0x0A] @ ''00:00:01.000 --> 00:00:01.000'' @ [CHR 0x0A]
     @ ''x'' @ [CHR 0x0A]
   \<and> parseWebVttCues
       (''WEBVTT'' @ [CHR 0x0A, CHR 0x0A] @ ''00:00:01.000 --> 00:00:01.000'' @ [CHR 0x0A]
        @ ''Hi'')
     = [\<lparr> TimedWordLike.text = ''Hi'', start_time = 1, end_time = 1, identifier = None \<rparr>]"
  by code_simp

section \<open>Properties of the streaming handler: transcribeIncremental\<close>

lemma trim_ends:
  assumes "trim s \<noteq> []"
  shows "\<not> isSpace (hd (trim s))" and "\<not> isSpace (last (trim s))"
proof -
  let ?v = "dropWhile isSpace s"
  let ?r = "dropWhile isSpace (rev ?v)"
  have t: "trim s = rev ?r" by (simp add: trim_def trimStart_def trimEnd_def)
  have r: "?r \<noteq> []" using assms t by simp
  then have "\<not> isSpace (hd ?r)" by (rule hd_dropWhile)
  then show "\<not> isSpace (last (trim s))" using r by (simp add: t last_rev)
  have v: "?v \<noteq> []"
  proof
    assume e: "?v = []"
    have "?r = []" unfolding e by simp
    with r show False by blast
  qed
  then have hv: "\<not> isSpace (hd ?v)" by (rule hd_dropWhile)
  have "rev ?v = takeWhile isSpace (rev ?v) @ ?r" by simp
  then have "?v = rev ?r @ rev (takeWhile isSpace (rev ?v))"
    by (metis rev_append rev_rev_ident)
  then have "hd ?v = hd (rev ?r)" using r by (metis hd_append2 rev_is_Nil_conv)
  then show "\<not> isSpace (hd (trim s))" using hv by (simp add: t)
qed

lemma trim_fixed:
  assumes "s \<noteq> []" and "\<not> isSpace (hd s)" and "\<not> isSpace (last s)"
  shows "trim s = s"
proof -
  have 1: "dropWhile isSpace s = s" using assms(1,2) by (cases s) auto
  have "rev s \<noteq> []" "\<not> isSpace (hd (rev s))" using assms(1,3) by (simp_all add: hd_rev)
  then have 2: "dropWhile isSpace (rev s) = rev s" by (cases "rev s") auto
  show ?thesis by (simp add: trim_def trimStart_def trimEnd_def 1 2)
qed

lemma trim_trim: "trim (trim s) = trim s"
proof (cases "trim s = []")
  case True
  have "trim [] = []" by (simp add: trim_def trimStart_def trimEnd_def)
  with True show ?thesis by simp
next
  case False
  then show ?thesis using trim_ends [OF False] by (intro trim_fixed)
qed

lemma join_space_ends:
  assumes "xs \<noteq> []" and "list_all (\<lambda>s. s \<noteq> []) xs"
  shows "join '' '' xs \<noteq> []" and "hd (join '' '' xs) = hd (hd xs)"
    and "last (join '' '' xs) = last (last xs)"
  using assms by (induction "'' ''" xs rule: join.induct) auto

lemma trim_join:
  assumes "list_all (\<lambda>s. s \<noteq> [] \<and> trim s = s) xs"
  shows "trim (join '' '' xs) = join '' '' xs"
proof (cases "xs = []")
  case True
  then show ?thesis by (simp add: trim_def trimStart_def trimEnd_def)
next
  case False
  have ne: "list_all (\<lambda>s. s \<noteq> []) xs" using assms by (simp add: list_all_iff)
  have h: "hd xs \<in> set xs" and l: "last xs \<in> set xs" using False by simp_all
  have th: "trim (hd xs) = hd xs" "hd xs \<noteq> []" "trim (last xs) = last xs" "last xs \<noteq> []"
    using assms h l by (auto simp: list_all_iff)
  have "\<not> isSpace (hd (hd xs))" using trim_ends(1) [of "hd xs"] th by simp
  moreover have "\<not> isSpace (last (last xs))" using trim_ends(2) [of "last xs"] th by simp
  ultimately show ?thesis
    using join_space_ends [OF False ne] by (intro trim_fixed) simp_all
qed

lemma sentencesTrimmed_reset: "sentencesTrimmed reset"
  by (simp add: sentencesTrimmed_def reset_def)

lemma sentencesTrimmed_pushSentence:
  "sentencesTrimmed st \<Longrightarrow> sentencesTrimmed (pushSentence (trim t) st)"
  by (simp add: sentencesTrimmed_def pushSentence_def trim_trim)

lemma sentencesTrimmed_lockWords:
  "sentencesTrimmed st \<Longrightarrow> sentencesTrimmed (lockWords st ws)"
  using sentencesTrimmed_pushSentence [of st "join '' '' (map TimedWordLike.text ws)"]
  by (simp add: sentencesTrimmed_def lockWords_def pushWords_def joinedText_def)

text \<open>
  Claim C7, as stated, fails in its last part: the call that finds the buffer unchanged
  returns an empty \<open>activeText\<close>, whatever the first call returned. With the recognizer
  and the buffer of the third test of \<open>stt-streaming.test.ts\<close> the first call returns
  the active text \<open>alpha beta\<close> and the second the empty string.
\<close>

theorem transcribeIncremental_second_call_drops_active_text:
  "transcribeIncremental (testConfig 15) (\<lambda>window. Inr alphaBeta) reset (silence 20)
   = (Inr \<lparr> fixedText = [], activeText = ''alpha beta'', timestamp = 2, isFinal = False,
            words = Some [timedWord ''alpha'' 0 1, timedWord ''beta'' 1 2],
            metadata = Some \<lparr> mLatencySeconds = 1 / 20, mAudioDurationSeconds = 2,
                              mRtf = 20 \<rparr> \<rparr>,
      \<lparr> fixedSentences = [], fixedWords = [], fixedEndTime = 0, lastTranscribedLength = 20 \<rparr>,
      [silence 20])
   \<and> transcribeIncremental (testConfig 15) (\<lambda>window. Inr alphaBeta)
       \<lparr> fixedSentences = [], fixedWords = [], fixedEndTime = 0, lastTranscribedLength = 20 \<rparr>
       (silence 20)
     = (Inr \<lparr> fixedText = [], activeText = [], timestamp = 2, isFinal = False,
              words = Some [], metadata = None \<rparr>,
        \<lparr> fixedSentences = [], fixedWords = [], fixedEndTime = 0, lastTranscribedLength = 20 \<rparr>,
        [])"
  by code_simp

text \<open>
  Claim C7, amended. When a call of \<open>transcribeIncremental\<close> on a handler whose locked
  sentences are trimmed and not empty (as every sentence the handler pushes is) has
  returned, the next call with the same buffer passes nothing to the recognizer, whatever
  the recognizer, leaves the state as it is, and returns the same \<open>fixedText\<close> and
  \<open>timestamp\<close> with an empty \<open>activeText\<close> and the locked words only.
\<close>

theorem transcribeIncremental_unchanged_buffer:
  assumes "transcribeIncremental cfg model st audio = (Inr p1, st1, calls1)"
    and "sentencesTrimmed st"
  shows "transcribeIncremental cfg model' st1 audio
         = (Inr \<lparr> fixedText = fixedText p1, activeText = [], timestamp = timestamp p1,
                  isFinal = False, words = Some (fixedWords st1), metadata = None \<rparr>,
            st1, [])
       \<and> sentencesTrimmed st1"
proof (cases "of_nat (length audio) < sampleRate cfg * (1 / 2)
    \<or> length audio = lastTranscribedLength st")
  case True
  with assms show ?thesis by (auto simp: transcribeIncremental_def)
next
  case False
  let ?st1 = "st \<lparr> lastTranscribedLength := length audio \<rparr>"
  have t1: "sentencesTrimmed ?st1" using assms(2) by (simp add: sentencesTrimmed_def)
  have t2: "sentencesTrimmed (lockWords ?st1 ws)" for ws
    by (rule sentencesTrimmed_lockWords [OF t1])
  have l1: "lastTranscribedLength (lockWords ?st1 ws) = length audio" for ws
    by (simp add: lockWords_def pushWords_def pushSentence_def)
  have shape: "(st1 = ?st1 \<or> (\<exists>ws. st1 = lockWords ?st1 ws))
      \<and> fixedText p1 = trim (join '' '' (fixedSentences st1))
      \<and> timestamp p1 = of_nat (length audio) / sampleRate cfg"
    using assms(1) False
    by (auto simp: transcribeIncremental_def Let_def incrementalResult_def
        split: sum.splits if_splits)
  then have tr: "sentencesTrimmed st1" and len: "lastTranscribedLength st1 = length audio"
    using t1 t2 l1 by auto
  have "trim (join '' '' (fixedSentences st1)) = join '' '' (fixedSentences st1)"
    using tr by (intro trim_join) (simp add: sentencesTrimmed_def)
  with shape len tr show ?thesis by (simp add: transcribeIncremental_def)
qed

theorem transcribeIncremental_unchanged_buffer_witness:
  "transcribeIncremental (testConfig 15) failsAfterFirst
     \<lparr> fixedSentences = [], fixedWords = [], fixedEndTime = 0, lastTranscribedLength = 20 \<rparr>
     (silence 20)
   = (Inr \<lparr> fixedText = [], activeText = [], timestamp = 2, isFinal = False,
            words = Some [], metadata = None \<rparr>,
      \<lparr> fixedSentences = [], fixedWords = [], fixedEndTime = 0, lastTranscribedLength = 20 \<rparr>,
      [])"
proof -
  have run: "transcribeIncremental (testConfig 15) (\<lambda>window. Inr alphaBeta) reset (silence 20)
   = (Inr \<lparr> fixedText = [], activeText = ''alpha beta'', timestamp = 2, isFinal = False,
            words = Some [timedWord ''alpha'' 0 1, timedWord ''beta'' 1 2],
            metadata = Some \<lparr> mLatencySeconds = 1 / 20, mAudioDurationSeconds = 2,
                              mRtf = 20 \<rparr> \<rparr>,
      \<lparr> fixedSentences = [], fixedWords = [], fixedEndTime = 0, lastTranscribedLength = 20 \<rparr>,
      [silence 20])"
    by code_simp
  from transcribeIncremental_unchanged_buffer [OF run sentencesTrimmed_reset, of failsAfterFirst]
  show ?thesis by simp
qed

text \<open>
  Claim C3, as stated, fails: \<open>transcribeIncremental\<close> calls the recognizer a second time
  after it has locked words, and an error of that call leaves the lock in the state. With
  a window of 6 s and 60 samples the first call returns \<open>alpha beta\<close>, both words are
  locked, and the call on the remaining 40 samples fails.
\<close>

theorem transcribeIncremental_failure_after_lock:
  "transcribeIncremental (testConfig 6) failsAfterFirst reset (silence 60)
   = (Inl (RecognizerError ''offline''),
      \<lparr> fixedSentences = [''alpha beta''],
        fixedWords = [timedWord ''alpha'' 0 1, timedWord ''beta'' 1 2],
        fixedEndTime = 2, lastTranscribedLength = 60 \<rparr>,
      [silence 60, silence 40])
   \<and> fixedEndTime reset = 0 \<and> fixedWords reset = [] \<and> fixedSentences reset = []"
  by code_simp

text \<open>
  Claim C3, amended. A call of \<open>transcribeIncremental\<close> that ends with the error \<open>e\<close> of
  the recognizer has made one or two recognizer calls. If it has made one, that call
  failed and the state is the one before the call with \<open>lastTranscribedLength\<close> set to
  the length of the buffer: \<open>fixedSentences\<close>, \<open>fixedWords\<close> and \<open>fixedEndTime\<close> are
  unchanged. If it has made two, the first returned a result with lockable words, the
  second failed, and the state holds the lock made from the first result.
\<close>

theorem transcribeIncremental_failure_state:
  assumes "transcribeIncremental cfg model st audio = (Inl e, st', cs)"
  shows "(length cs = 1 \<or> length cs = 2)
       \<and> hd cs = slice audio \<lfloor>fixedEndTime st * sampleRate cfg\<rfloor> None
       \<and> (length cs = 1 \<longrightarrow>
            model (hd cs) = Inl e
            \<and> st' = st \<lparr> lastTranscribedLength := length audio \<rparr>
            \<and> fixedSentences st' = fixedSentences st
            \<and> fixedWords st' = fixedWords st
            \<and> fixedEndTime st' = fixedEndTime st)
       \<and> (length cs = 2 \<longrightarrow>
            (\<exists>result.
               model (hd cs) = Inr result
               \<and> lockable (of_nat (length (hd cs)) / sampleRate cfg
                            - sentenceBufferSeconds cfg) result \<noteq> []
               \<and> st' = lockWords (st \<lparr> lastTranscribedLength := length audio \<rparr>)
                          (lockable (of_nat (length (hd cs)) / sampleRate cfg
                                     - sentenceBufferSeconds cfg) result))
            \<and> cs ! 1 = slice audio \<lfloor>fixedEndTime st' * sampleRate cfg\<rfloor> None
            \<and> model (cs ! 1) = Inl e)"
  using assms
  by (auto simp: transcribeIncremental_def Let_def split: sum.splits if_splits)

text \<open>
  The theorem at a recognizer that always fails, and at the run above, where the first
  of two calls succeeds.
\<close>

theorem transcribeIncremental_failure_state_witness:
  "fst (snd (transcribeIncremental (testConfig 6)
       (\<lambda>window. Inl (RecognizerError ''offline'')) reset (silence 60)))
   = reset \<lparr> lastTranscribedLength := 60 \<rparr>
   \<and> fst (snd (transcribeIncremental (testConfig 6) failsAfterFirst reset (silence 60)))
     = lockWords (reset \<lparr> lastTranscribedLength := 60 \<rparr>)
         [timedWord ''alpha'' 0 1, timedWord ''beta'' 1 2]"
proof -
  have run1: "transcribeIncremental (testConfig 6)
       (\<lambda>window. Inl (RecognizerError ''offline'')) reset (silence 60)
     = (Inl (RecognizerError ''offline''),
        \<lparr> fixedSentences = [], fixedWords = [], fixedEndTime = 0, lastTranscribedLength = 60 \<rparr>,
        [silence 60])"
    by code_simp
  have run2: "transcribeIncremental (testConfig 6) failsAfterFirst reset (silence 60)
   = (Inl (RecognizerError ''offline''),
      \<lparr> fixedSentences = [''alpha beta''],
        fixedWords = [timedWord ''alpha'' 0 1, timedWord ''beta'' 1 2],
        fixedEndTime = 2, lastTranscribedLength = 60 \<rparr>,
      [silence 60, silence 40])"
    by code_simp
  have len: "length (silence 60) = 60" by (simp add: silence_def)
  have lk: "lockable (60 / sampleRate (testConfig 6)
                - sentenceBufferSeconds (testConfig 6)) alphaBeta
            = [timedWord ''alpha'' 0 1, timedWord ''beta'' 1 2]"
    by code_simp
  have ok: "failsAfterFirst (silence 60) = Inr alphaBeta"
    by (simp add: failsAfterFirst_def len)
  from transcribeIncremental_failure_state [OF run1]
  have a: "\<lparr> fixedSentences = [], fixedWords = [], fixedEndTime = 0, lastTranscribedLength = 60 \<rparr>
      = reset \<lparr> lastTranscribedLength := 60 \<rparr>"
    by (simp add: len)
  from transcribeIncremental_failure_state [OF run2]
  have b: "\<lparr> fixedSentences = [''alpha beta''],
        fixedWords = [timedWord ''alpha'' 0 1, timedWord ''beta'' 1 2],
        fixedEndTime = 2, lastTranscribedLength = 60 \<rparr>
      = lockWords (reset \<lparr> lastTranscribedLength := 60 \<rparr>)
          [timedWord ''alpha'' 0 1, timedWord ''beta'' 1 2]"
    by (simp add: len ok lk)
  show ?thesis using a b by (simp add: run1 run2)
qed

section \<open>Properties of the streaming handler: transcribeBatch\<close>























section \<open>Order of the locked words\<close>




lemma start_time_toAbsoluteWord: "start_time (toAbsoluteWord b w) = b + start_time w"
  by (simp add: toAbsoluteWord_def)

lemma map_start_time_toAbsoluteWord:
  "map start_time (map (toAbsoluteWord b) ws) = map (\<lambda>w. b + start_time w) ws"
  by (simp add: start_time_toAbsoluteWord)
















end
